theory Spec2Isabelle
  imports Main "HOL-Library.AList"
begin

text \<open>
  The pin-allocation core of the STM32 assistant: the extraction of candidate allocations
  from the reply of the language model, their merge into the session's allocation map, the
  validation of the incoming message, and the part of the prompt that lists the stored
  allocations. Two revisions of the backend are covered, the earlier one
  (\<^verbatim>\<open>stm32-ai-agent/src/index.ts\<close>) and the later one; where a definition has no suffix it
  is of the later one. What the language model answers is an input of a turn, it is not
  computed here; the keyword searches of the database, which only feed the prompt and the
  field \<^verbatim>\<open>sources\<close> of the answer, and the cleanup of old sessions, which a middleware
  runs at random after a request, are left out.
\<close>

section \<open>Data model\<close>

text \<open>
  The TypeScript interface of both backends:
  \<^verbatim>\<open>interface PinAllocation { [pin: string]: { function: string; device?: string; notes?: string } }\<close>
  An allocation is a record; an absent optional field (\<^verbatim>\<open>undefined\<close>) is \<open>None\<close>.
  The fields \<^verbatim>\<open>function\<close> and \<^verbatim>\<open>notes\<close> are called \<open>func\<close> and \<open>notes_txt\<close>
  here, since both words are keywords of Isabelle.

  A JavaScript object is an association list in the order \<^verbatim>\<open>Object.entries\<close> walks it,
  with pairwise distinct keys. \<^verbatim>\<open>obj[k] = v\<close> is \<open>AList.update\<close> (an existing key keeps
  its place, a new key goes to the end), \<^verbatim>\<open>delete obj[k]\<close> is \<open>AList.delete\<close> and
  \<^verbatim>\<open>obj[k]\<close> is \<open>map_of\<close>. (JavaScript walks keys that are array indices, such as
  \<^verbatim>\<open>"12"\<close>, before all others; pin names are not of that form. For the object of the
  device groups, whose keys are device names, that order is part of the model, see
  \<open>objectEntries\<close>.)
\<close>

record allocation =
  func :: string
  device :: "string option"
  notes_txt :: "string option"

type_synonym PinAllocation = "(string \<times> allocation) list"

text \<open>JavaScript truthiness of an optional string: \<^verbatim>\<open>undefined\<close> and \<^verbatim>\<open>''\<close> are falsy.\<close>

definition truthy :: "string option \<Rightarrow> bool" where
  "truthy d = (case d of None \<Rightarrow> False | Some s \<Rightarrow> s \<noteq> [])"

text \<open>\<^verbatim>\<open>new Set(xs)\<close>: the elements of \<open>xs\<close> in the order of their first occurrence.\<close>

definition Set_add :: "'a list \<Rightarrow> 'a \<Rightarrow> 'a list" where
  "Set_add s x = (if x \<in> set s then s else s @ [x])"

definition new_Set :: "'a list \<Rightarrow> 'a list" where
  "new_Set xs = foldl Set_add [] xs"

section \<open>The allocation merge of the chat turn (later backend)\<close>

text \<open>
  \<^verbatim>\<open>Object.entries(allocs).filter(([_, info]) => info.device === device).map(([pin, _]) => pin)\<close>
\<close>

definition pinsOf :: "PinAllocation \<Rightarrow> string option \<Rightarrow> string list" where
  "pinsOf allocs dev = map fst (filter (\<lambda>(pin, info). device info = dev) allocs)"

text \<open>
  \<^verbatim>\<open>oldPins.some(pin => !newPins.includes(pin)) || newPins.some(pin => !oldPins.includes(pin))\<close>
\<close>

definition pinsChanged :: "string list \<Rightarrow> string list \<Rightarrow> bool" where
  "pinsChanged oldPins newPins =
     (list_ex (\<lambda>pin. pin \<notin> set newPins) oldPins \<or>
      list_ex (\<lambda>pin. pin \<notin> set oldPins) newPins)"

text \<open>
  \<^verbatim>\<open>for (const [pin, info] of Object.entries(updatedAllocations))
    if (info.device === device) delete updatedAllocations[pin];\<close>
  \<^verbatim>\<open>Object.entries\<close> is a snapshot taken before the loop.
\<close>

definition removeDevice :: "string option \<Rightarrow> PinAllocation \<Rightarrow> PinAllocation" where
  "removeDevice dev updated =
     fold (\<lambda>(pin, info) u. if device info = dev then AList.delete pin u else u) updated updated"

text \<open>The body of \<^verbatim>\<open>for (const device of newDevices)\<close> in the later backend.\<close>

definition reassignDevice ::
  "PinAllocation \<Rightarrow> PinAllocation \<Rightarrow> string option \<Rightarrow> PinAllocation \<Rightarrow> PinAllocation" where
  "reassignDevice currentAllocations newAllocations dev updated =
     (let oldPins = pinsOf currentAllocations dev;
          newPins = pinsOf newAllocations dev
      in if length oldPins > 0 \<and> length newPins > 0
         then (if pinsChanged oldPins newPins then removeDevice dev updated else updated)
         else updated)"

text \<open>
  The body of the last loop:
  \<^verbatim>\<open>const existing = updatedAllocations[pin];
  if (!existing || existing.device !== info.device || existing.function !== info.function)
    updatedAllocations[pin] = info;\<close>
\<close>

definition addAllocation :: "string \<times> allocation \<Rightarrow> PinAllocation \<Rightarrow> PinAllocation" where
  "addAllocation e updated =
     (case e of (pin, info) \<Rightarrow>
        (case map_of updated pin of
           None \<Rightarrow> AList.update pin info updated
         | Some existing \<Rightarrow>
             if device existing \<noteq> device info \<or> func existing \<noteq> func info
             then AList.update pin info updated
             else updated))"

text \<open>
  \<^verbatim>\<open>new Set(Object.values(newAllocations).map(info => info.device).filter(d => d))\<close>
\<close>

definition newDevices :: "PinAllocation \<Rightarrow> string option list" where
  "newDevices newAllocations = new_Set (filter truthy (map (\<lambda>(pin, info). device info) newAllocations))"

text \<open>
  The value of \<^verbatim>\<open>updatedAllocations\<close> after the two loops of the later backend, from
  \<^verbatim>\<open>currentAllocations\<close> (the session's stored map) and \<^verbatim>\<open>newAllocations\<close> (the
  candidates extracted from the reply).
\<close>

definition updatedAllocations :: "PinAllocation \<Rightarrow> PinAllocation \<Rightarrow> PinAllocation" where
  "updatedAllocations currentAllocations newAllocations =
     (let updated = currentAllocations;
          updated = fold (reassignDevice currentAllocations newAllocations)
                         (newDevices newAllocations) updated
      in fold addAllocation newAllocations updated)"

section \<open>Strings and regular expressions\<close>

text \<open>
  JavaScript strings are modelled by \<open>string\<close>, and the model is meant for ASCII text: the
  character classes and the case conversions below are those of JavaScript on the
  characters below 128 and leave every other character alone.
\<close>

definition is_space :: "char \<Rightarrow> bool" where
  "is_space c = (c \<in> set [CHR 0x09, CHR 0x0A, CHR 0x0B, CHR 0x0C, CHR 0x0D, CHR '' ''])"

definition is_digit :: "char \<Rightarrow> bool" where
  "is_digit c = (c \<in> set ''0123456789'')"

definition is_upper :: "char \<Rightarrow> bool" where
  "is_upper c = (c \<in> set ''ABCDEFGHIJKLMNOPQRSTUVWXYZ'')"

definition is_lower :: "char \<Rightarrow> bool" where
  "is_lower c = (c \<in> set ''abcdefghijklmnopqrstuvwxyz'')"

text \<open>\<^verbatim>\<open>[A-Z]\<close> under the flag \<^verbatim>\<open>i\<close>.\<close>

definition is_alpha :: "char \<Rightarrow> bool" where
  "is_alpha c = (is_upper c \<or> is_lower c)"

text \<open>\<^verbatim>\<open>\w\<close>, which decides \<^verbatim>\<open>\b\<close>.\<close>

definition is_word :: "char \<Rightarrow> bool" where
  "is_word c = (is_upper c \<or> is_lower c \<or> is_digit c \<or> c = CHR ''_'')"

text \<open>\<^verbatim>\<open>.\<close> (no flag \<^verbatim>\<open>s\<close>): any character but a line terminator.\<close>

definition is_dot :: "char \<Rightarrow> bool" where
  "is_dot c = (c \<noteq> CHR 0x0A \<and> c \<noteq> CHR 0x0D)"

definition upper_char :: "char \<Rightarrow> char" where
  "upper_char c =
     (case map_of (zip ''abcdefghijklmnopqrstuvwxyz'' ''ABCDEFGHIJKLMNOPQRSTUVWXYZ'') c of
        Some u \<Rightarrow> u | None \<Rightarrow> c)"

definition lower_char :: "char \<Rightarrow> char" where
  "lower_char c =
     (case map_of (zip ''ABCDEFGHIJKLMNOPQRSTUVWXYZ'' ''abcdefghijklmnopqrstuvwxyz'') c of
        Some u \<Rightarrow> u | None \<Rightarrow> c)"

definition toUpperCase :: "string \<Rightarrow> string" where
  "toUpperCase = map upper_char"

definition toLowerCase :: "string \<Rightarrow> string" where
  "toLowerCase = map lower_char"

definition trim :: "string \<Rightarrow> string" where
  "trim s = rev (dropWhile is_space (rev (dropWhile is_space s)))"

fun startsWith :: "string \<Rightarrow> string \<Rightarrow> bool" where
  "startsWith s [] = True"
| "startsWith [] (c # w) = False"
| "startsWith (x # xs) (c # w) = (x = c \<and> startsWith xs w)"

text \<open>\<^verbatim>\<open>s.includes(w)\<close>\<close>

fun str_includes :: "string \<Rightarrow> string \<Rightarrow> bool" where
  "str_includes [] w = (w = [])"
| "str_includes (x # xs) w = (startsWith (x # xs) w \<or> str_includes xs w)"

text \<open>\<^verbatim>\<open>s.split(c)\<close> for a one-character separator; \<open>acc\<close> is the current piece, reversed.\<close>

fun split_acc :: "char \<Rightarrow> string \<Rightarrow> string \<Rightarrow> string list" where
  "split_acc c acc [] = [rev acc]"
| "split_acc c acc (x # xs) =
     (if x = c then rev acc # split_acc c [] xs else split_acc c (x # acc) xs)"

definition split :: "string \<Rightarrow> char \<Rightarrow> string list" where
  "split s c = split_acc c [] s"

subsection \<open>A backtracking matcher\<close>

text \<open>
  The regular expressions of the source are kept as data and run by a matcher that tries
  the alternatives in the order of ECMAScript: the left branch of \<^verbatim>\<open>|\<close> first, one more
  round of a greedy \<^verbatim>\<open>*\<close> before leaving it, leaving a lazy \<^verbatim>\<open>*?\<close> before one more round;
  a round of \<^verbatim>\<open>*\<close> that consumes nothing is refused. \<open>Lit ic w\<close> is the literal text \<open>w\<close>
  (\<open>ic\<close>: ignoring case), \<open>Chr P\<close> one character of a class, \<open>Grp n r\<close> the capturing group
  number \<open>n\<close>, \<open>Wb\<close> is \<^verbatim>\<open>\b\<close>.
\<close>

datatype rx =
    Chr "char \<Rightarrow> bool"
  | Lit bool string
  | Eps
  | Seq rx rx
  | Alt rx rx
  | Star bool rx
  | Grp nat rx
  | Wb

text \<open>
  A position in the subject: the character before it, the text from it on, the length of
  that text, and the groups closed so far, each as the lengths of what was left of the
  subject at its start and at its end.
\<close>

datatype mstate =
  St (st_prev: "char option") (st_rest: string) (st_left: nat)
     (st_caps: "(nat \<times> nat \<times> nat) list")

fun at_boundary :: "mstate \<Rightarrow> bool" where
  "at_boundary (St p r n cp) =
     ((case p of None \<Rightarrow> False | Some c \<Rightarrow> is_word c)
      \<noteq> (case r of [] \<Rightarrow> False | c # _ \<Rightarrow> is_word c))"

fun eat :: "bool \<Rightarrow> string \<Rightarrow> mstate \<Rightarrow> mstate option" where
  "eat ic [] s = Some s"
| "eat ic (c # w) (St p [] n cp) = None"
| "eat ic (c # w) (St p (x # xs) n cp) =
     (if (if ic then lower_char x = lower_char c else x = c)
      then eat ic w (St (Some x) xs (n - 1) cp) else None)"

text \<open>
  \<open>ms r s k\<close>: the first way, in the order of priority, to match \<open>r\<close> at \<open>s\<close> such that
  the continuation \<open>k\<close> accepts the position reached.
\<close>

function (sequential) ms :: "rx \<Rightarrow> mstate \<Rightarrow> (mstate \<Rightarrow> mstate option) \<Rightarrow> mstate option" where
  "ms (Chr P) (St p [] n cp) k = None"
| "ms (Chr P) (St p (c # cs) n cp) k = (if P c then k (St (Some c) cs (n - 1) cp) else None)"
| "ms (Lit ic w) s k = (case eat ic w s of None \<Rightarrow> None | Some s' \<Rightarrow> k s')"
| "ms Eps s k = k s"
| "ms (Seq a b) s k = ms a s (\<lambda>s'. ms b s' k)"
| "ms (Alt a b) s k = (case ms a s k of Some x \<Rightarrow> Some x | None \<Rightarrow> ms b s k)"
| "ms (Star greedy r) s k =
     (if greedy
      then (case ms r s (\<lambda>s'. if st_left s' < st_left s then ms (Star greedy r) s' k else None) of
              Some x \<Rightarrow> Some x
            | None \<Rightarrow> k s)
      else (case k s of
              Some x \<Rightarrow> Some x
            | None \<Rightarrow> ms r s (\<lambda>s'. if st_left s' < st_left s then ms (Star greedy r) s' k else None)))"
| "ms (Grp g r) s k =
     ms r s (\<lambda>s'. k (St (st_prev s') (st_rest s') (st_left s')
                        (AList.update g (st_left s, st_left s') (st_caps s'))))"
| "ms Wb s k = (if at_boundary s then k s else None)"
  by pat_completeness auto
termination
  by (relation "measures [\<lambda>(r, s, k). size r, \<lambda>(r, s, k). st_left s]") auto

text \<open>\<^verbatim>\<open>r+\<close>, \<^verbatim>\<open>r?\<close>, \<^verbatim>\<open>r{2,}\<close>, \<^verbatim>\<open>r{1,2}\<close>, a sequence and a list of alternatives.\<close>

definition Plus :: "rx \<Rightarrow> rx" where
  "Plus r = Seq r (Star True r)"

definition Opt :: "rx \<Rightarrow> rx" where
  "Opt r = Alt r Eps"

definition Two_or_more :: "rx \<Rightarrow> rx" where
  "Two_or_more r = Seq r (Seq r (Star True r))"

definition One_or_two :: "rx \<Rightarrow> rx" where
  "One_or_two r = Seq r (Opt r)"

definition seqs :: "rx list \<Rightarrow> rx" where
  "seqs rs = foldr Seq rs Eps"

definition alts :: "rx list \<Rightarrow> rx" where
  "alts rs = foldr Alt (butlast rs) (last rs)"

text \<open>A match: the text matched and the texts of the groups that took part.\<close>

datatype rmatch = Match (matched: string) (m_groups: "(nat \<times> string) list")

definition mk_match :: "string \<Rightarrow> nat \<Rightarrow> mstate \<Rightarrow> rmatch" where
  "mk_match s n m =
     Match (take (n - st_left m) s)
           (map (\<lambda>(g, a, b). (g, take (a - b) (drop (n - a) s))) (st_caps m))"

text \<open>
  \<^verbatim>\<open>s.match(r)\<close> without the flag \<^verbatim>\<open>g\<close>: the leftmost match. \<open>search r p s n\<close> looks from
  the position with text \<open>s\<close> (of length \<open>n\<close>) after the character \<open>p\<close>.
\<close>

fun search :: "rx \<Rightarrow> char option \<Rightarrow> string \<Rightarrow> nat \<Rightarrow> rmatch option" where
  "search r p [] n =
     (case ms r (St p [] n []) Some of Some m \<Rightarrow> Some (mk_match [] n m) | None \<Rightarrow> None)"
| "search r p (c # cs) n =
     (case ms r (St p (c # cs) n []) Some of
        Some m \<Rightarrow> Some (mk_match (c # cs) n m)
      | None \<Rightarrow> search r (Some c) cs (n - 1))"

definition match :: "string \<Rightarrow> rx \<Rightarrow> rmatch option" where
  "match s r = search r None s (length s)"

text \<open>\<^verbatim>\<open>r.test(s)\<close>, and the truth value of \<^verbatim>\<open>s.match(r)\<close>.\<close>

definition test :: "rx \<Rightarrow> string \<Rightarrow> bool" where
  "test r s = (match s r \<noteq> None)"

text \<open>\<^verbatim>\<open>m[n]\<close> of a match \<open>m\<close>; \<open>None\<close> is \<^verbatim>\<open>undefined\<close>.\<close>

definition grp :: "rmatch \<Rightarrow> nat \<Rightarrow> string option" where
  "grp m n = map_of (m_groups m) n"

text \<open>
  All matches, for the flag \<^verbatim>\<open>g\<close> (\<^verbatim>\<open>s.matchAll(r)\<close>, \<^verbatim>\<open>s.match(r)\<close>): the next search
  starts where the last match ended, one character further after an empty match. \<open>skip\<close>
  counts the characters still inside the last match.
\<close>

fun scan :: "rx \<Rightarrow> char option \<Rightarrow> string \<Rightarrow> nat \<Rightarrow> nat \<Rightarrow> rmatch list" where
  "scan r p [] n skip =
     (if skip = 0
      then (case ms r (St p [] n []) Some of Some m \<Rightarrow> [mk_match [] n m] | None \<Rightarrow> [])
      else [])"
| "scan r p (c # cs) n skip =
     (if skip = 0
      then (case ms r (St p (c # cs) n []) Some of
              Some m \<Rightarrow> mk_match (c # cs) n m # scan r (Some c) cs (n - 1) (n - st_left m - 1)
            | None \<Rightarrow> scan r (Some c) cs (n - 1) 0)
      else scan r (Some c) cs (n - 1) (skip - 1))"

definition matchAll :: "string \<Rightarrow> rx \<Rightarrow> rmatch list" where
  "matchAll s r = scan r None s (length s) 0"

section \<open>Extraction of the candidate allocations (later backend)\<close>

text \<open>
  What the model may return next to its text: \<^verbatim>\<open>tool_calls\<close>, typed \<^verbatim>\<open>any\<close> in the
  source. An element of the array is \<^verbatim>\<open>null\<close> or \<^verbatim>\<open>undefined\<close> (\<open>None\<close>) or has a name
  and arguments. \<open>tool_args\<close> is what the first lines of the \<^verbatim>\<open>try\<close> block make of the
  arguments: they throw (\<^verbatim>\<open>JSON.parse\<close> fails, or \<^verbatim>\<open>args\<close> is \<^verbatim>\<open>null\<close>), or
  \<^verbatim>\<open>allocationsList\<close> is falsy or no array, or it is an array of entries. An entry has the
  fields of the tool's schema; its pin is \<open>None\<close> when the entry is \<^verbatim>\<open>null\<close> or has no
  string there, so that \<^verbatim>\<open>allocation.pin.toUpperCase()\<close> throws.
\<close>

record tool_entry =
  e_pin :: "string option"
  e_function :: string
  e_device :: "string option"
  e_notes :: "string option"

datatype tool_args = Throws | NoList | Entries "tool_entry list"

record tool_call =
  tc_name :: string
  tc_arguments :: tool_args

record aiResponse =
  response :: string
  tool_calls :: "tool_call option list"

text \<open>
  \<^verbatim>\<open>for (const allocation of allocationsList) {
    const pin = allocation.pin.toUpperCase();
    allocations[pin] = { function: allocation.function, device: allocation.device,
                         notes: allocation.notes }; }\<close>
  The result says whether the loop threw, and holds \<^verbatim>\<open>allocations\<close> as the loop left it.
\<close>

fun allocationsLoop :: "tool_entry list \<Rightarrow> PinAllocation \<Rightarrow> bool \<times> PinAllocation" where
  "allocationsLoop [] allocations = (False, allocations)"
| "allocationsLoop (allocation # entries) allocations =
     (case e_pin allocation of
        None \<Rightarrow> (True, allocations)
      | Some p \<Rightarrow>
          allocationsLoop entries
            (AList.update (toUpperCase p)
               \<lparr>func = e_function allocation, device = e_device allocation,
                notes_txt = e_notes allocation\<rparr> allocations))"

text \<open>The \<^verbatim>\<open>try\<close> block of one tool call.\<close>

definition tryToolCall :: "tool_args \<Rightarrow> PinAllocation \<Rightarrow> bool \<times> PinAllocation" where
  "tryToolCall args allocations =
     (case args of
        Throws \<Rightarrow> (True, allocations)
      | NoList \<Rightarrow> (False, allocations)
      | Entries allocationsList \<Rightarrow> allocationsLoop allocationsList allocations)"

text \<open>
  \<^verbatim>\<open>for (const toolCall of aiResponse.tool_calls)
    if (toolCall.name === 'allocate_pins') { try { ... } catch (e) { console.error(...) } }\<close>
  The \<^verbatim>\<open>catch\<close> goes on with \<^verbatim>\<open>allocations\<close> as the \<^verbatim>\<open>try\<close> block left it. Reading
  \<^verbatim>\<open>toolCall.name\<close> of \<^verbatim>\<open>null\<close> throws outside the \<^verbatim>\<open>try\<close>: the result is \<open>None\<close>.
\<close>

fun toolCallsLoop :: "tool_call option list \<Rightarrow> PinAllocation \<Rightarrow> PinAllocation option" where
  "toolCallsLoop [] allocations = Some allocations"
| "toolCallsLoop (None # calls) allocations = None"
| "toolCallsLoop (Some toolCall # calls) allocations =
     toolCallsLoop calls
       (if tc_name toolCall = ''allocate_pins''
        then snd (tryToolCall (tc_arguments toolCall) allocations)
        else allocations)"

text \<open>\<^verbatim>\<open>/---PIN_ALLOCATIONS---\n([\s\S]*?)\n---END_ALLOCATIONS---/\<close>\<close>

definition structuredRx :: rx where
  "structuredRx =
     seqs [Lit False ''---PIN_ALLOCATIONS---'', Chr (\<lambda>c. c = CHR 0x0A),
           Grp 1 (Star False (Chr (\<lambda>c. True))),
           Chr (\<lambda>c. c = CHR 0x0A), Lit False ''---END_ALLOCATIONS---'']"

text \<open>
  \<^verbatim>\<open>/PIN:\s*([A-Z]{2}\d{1,2})/i\<close>, \<^verbatim>\<open>/FUNCTION:\s*([^|]+)/i\<close>, \<^verbatim>\<open>/DEVICE:\s*([^|]+)/i\<close>,
  \<^verbatim>\<open>/NOTES:\s*(.+)/i\<close>
\<close>

definition pinRx :: rx where
  "pinRx = seqs [Lit True ''PIN:'', Star True (Chr is_space),
                 Grp 1 (seqs [Chr is_alpha, Chr is_alpha, One_or_two (Chr is_digit)])]"

definition functionRx :: rx where
  "functionRx = seqs [Lit True ''FUNCTION:'', Star True (Chr is_space),
                      Grp 1 (Plus (Chr (\<lambda>c. c \<noteq> CHR ''|'')))]"

definition deviceRx :: rx where
  "deviceRx = seqs [Lit True ''DEVICE:'', Star True (Chr is_space),
                    Grp 1 (Plus (Chr (\<lambda>c. c \<noteq> CHR ''|'')))]"

definition notesRx :: rx where
  "notesRx = seqs [Lit True ''NOTES:'', Star True (Chr is_space), Grp 1 (Plus (Chr is_dot))]"

text \<open>\<^verbatim>\<open>m ? m[1].trim() : undefined\<close>\<close>

definition trimmed1 :: "rmatch option \<Rightarrow> string option" where
  "trimmed1 m = (case m of None \<Rightarrow> None | Some x \<Rightarrow> map_option trim (grp x 1))"

text \<open>
  The body of \<^verbatim>\<open>for (const line of lines)\<close>: a line whose \<^verbatim>\<open>pinMatch\<close> is \<^verbatim>\<open>null\<close> is
  passed over.
\<close>

definition parseLine :: "string \<Rightarrow> PinAllocation \<Rightarrow> PinAllocation" where
  "parseLine line allocations =
     (let pinMatch = match line pinRx;
          functionMatch = match line functionRx;
          deviceMatch = match line deviceRx;
          notesMatch = match line notesRx
      in case pinMatch of
           None \<Rightarrow> allocations
         | Some pm \<Rightarrow>
             (case grp pm 1 of
                None \<Rightarrow> allocations
              | Some p \<Rightarrow>
                  AList.update (toUpperCase p)
                    \<lparr>func = (case trimmed1 functionMatch of Some f \<Rightarrow> f | None \<Rightarrow> ''GPIO''),
                     device = trimmed1 deviceMatch,
                     notes_txt = trimmed1 notesMatch\<rparr> allocations))"

text \<open>
  \<^verbatim>\<open>const lines = allocationBlock.split('\n').filter((line) => line.trim());\<close> and the loop
  over them.
\<close>

definition parseBlock :: "string \<Rightarrow> PinAllocation \<Rightarrow> PinAllocation" where
  "parseBlock allocationBlock allocations =
     (let lines = filter (\<lambda>line. trim line \<noteq> []) (split allocationBlock (CHR 0x0A))
      in fold parseLine lines allocations)"

text \<open>
  The patterns of the fallback:
  \<^verbatim>\<open>/which pins|what pins|list.*pins/i\<close>, \<^verbatim>\<open>/can i use|could i use/i\<close>,
  \<^verbatim>\<open>/are.*5v tolerant|5v.*tolerant/i\<close>, \<^verbatim>\<open>/available|options/i\<close>.
\<close>

definition informationalPatterns :: "rx list" where
  "informationalPatterns =
     [alts [Lit True ''which pins'', Lit True ''what pins'',
            seqs [Lit True ''list'', Star True (Chr is_dot), Lit True ''pins'']],
      alts [Lit True ''can i use'', Lit True ''could i use''],
      alts [seqs [Lit True ''are'', Star True (Chr is_dot), Lit True ''5v tolerant''],
            seqs [Lit True ''5v'', Star True (Chr is_dot), Lit True ''tolerant'']],
      alts [Lit True ''available'', Lit True ''options'']]"

text \<open>\<^verbatim>\<open>[A-Z]{2,}[-]?\d{2,}[A-Z]?\d*\<close> under the flag \<^verbatim>\<open>i\<close>.\<close>

definition partNumber :: rx where
  "partNumber = seqs [Two_or_more (Chr is_alpha), Opt (Chr (\<lambda>c. c = CHR ''-'')),
                      Two_or_more (Chr is_digit), Opt (Chr is_alpha), Star True (Chr is_digit)]"

text \<open>\<^verbatim>\<open>/\b([A-Z]{2,}[-]?\d{2,}[A-Z]?\d*|LED|Button|Switch|Motor|Relay)\b/gi\<close>\<close>

definition devicePattern :: rx where
  "devicePattern =
     seqs [Wb, Grp 1 (alts [partNumber, Lit True ''LED'', Lit True ''Button'', Lit True ''Switch'',
                            Lit True ''Motor'', Lit True ''Relay'']), Wb]"

text \<open>
  \<^verbatim>\<open>/connect\s+(?:the\s+)?([A-Z]{2,}[-]?\d{2,}[A-Z]?\d*|LED|sensor|module)\s+(?:to\s+)?([A-Z]{2}\d{1,2})/gi\<close>
\<close>

definition connectionPattern :: rx where
  "connectionPattern =
     seqs [Lit True ''connect'', Plus (Chr is_space),
           Opt (seqs [Lit True ''the'', Plus (Chr is_space)]),
           Grp 1 (alts [partNumber, Lit True ''LED'', Lit True ''sensor'', Lit True ''module'']),
           Plus (Chr is_space),
           Opt (seqs [Lit True ''to'', Plus (Chr is_space)]),
           Grp 2 (seqs [Chr is_alpha, Chr is_alpha, One_or_two (Chr is_digit)])]"

text \<open>
  The body of \<^verbatim>\<open>for (const match of matches)\<close>:
  \<^verbatim>\<open>if (!allocations[pin]) allocations[pin] = { function: 'GPIO', device: device, notes: undefined };\<close>
\<close>

definition connectionMatch :: "rmatch \<Rightarrow> PinAllocation \<Rightarrow> PinAllocation" where
  "connectionMatch m allocations =
     (case grp m 2 of
        None \<Rightarrow> allocations
      | Some p \<Rightarrow>
          (let pin = toUpperCase p in
           case map_of allocations pin of
             Some existing \<Rightarrow> allocations
           | None \<Rightarrow>
               AList.update pin \<lparr>func = ''GPIO'', device = grp m 1, notes_txt = None\<rparr>
                 allocations))"

text \<open>The part of \<^verbatim>\<open>extractPinAllocations\<close> after the structured block was not found.\<close>

definition fallback :: "string \<Rightarrow> string \<Rightarrow> PinAllocation \<Rightarrow> PinAllocation" where
  "fallback text userMsg allocations =
     (let isInformational = list_ex (\<lambda>pattern. match userMsg pattern \<noteq> None) informationalPatterns
      in if isInformational then allocations
         else (let devices = matchAll userMsg devicePattern
               in if devices = [] then allocations
                  else fold connectionMatch (matchAll text connectionPattern) allocations))"

text \<open>
  \<^verbatim>\<open>extractPinAllocations(aiResponse, userMsg)\<close> of the later backend. \<open>None\<close>: the
  function throws.
\<close>

definition extractPinAllocations :: "aiResponse \<Rightarrow> string \<Rightarrow> PinAllocation option" where
  "extractPinAllocations aiResponse userMsg =
     (case toolCallsLoop (tool_calls aiResponse) [] of
        None \<Rightarrow> None
      | Some allocations \<Rightarrow>
          if length allocations > 0 then Some allocations
          else (let text = response aiResponse;
                    structuredMatch = match text structuredRx
                in case structuredMatch of
                     Some sm \<Rightarrow>
                       (case grp sm 1 of
                          Some allocationBlock \<Rightarrow> Some (parseBlock allocationBlock allocations)
                        | None \<Rightarrow> Some allocations)
                   | None \<Rightarrow> Some (fallback text userMsg allocations)))"

section \<open>The earlier backend\<close>













text \<open>
  The body of \<^verbatim>\<open>for (const device of newDevices)\<close> in the earlier backend:
  \<^verbatim>\<open>const hasExisting = Object.values(currentAllocations).some(info => info.device === device);
  if (hasExisting) { ...delete every entry of updatedAllocations with that device... }\<close>
\<close>

definition reassignDevice_v1 ::
  "PinAllocation \<Rightarrow> string option \<Rightarrow> PinAllocation \<Rightarrow> PinAllocation" where
  "reassignDevice_v1 currentAllocations dev updated =
     (let hasExisting = list_ex (\<lambda>(pin, info). device info = dev) currentAllocations
      in if hasExisting then removeDevice dev updated else updated)"




section \<open>The chat endpoint of the later backend\<close>

subsection \<open>Intent of the message\<close>

definition informationalKeywords :: "string list" where
  "informationalKeywords =
     [''which pins'', ''what pins'', ''are'', ''tolerant'', ''can i'', ''list'', ''available'']"



definition isInformational :: "string \<Rightarrow> bool" where
  "isInformational message =
     list_ex (\<lambda>kw. str_includes (toLowerCase message) kw) informationalKeywords"




subsection \<open>Validation of the input\<close>

text \<open>
  The patterns of prompt injection, all under the flag \<^verbatim>\<open>i\<close> and only used with
  \<^verbatim>\<open>test\<close>, so their groups are not recorded. \<open>sp\<close> is \<^verbatim>\<open>\s+\<close>, \<open>sp0\<close> is \<^verbatim>\<open>\s*\<close>,
  \<open>plural w\<close> is the word with an optional \<^verbatim>\<open>s\<close>.
\<close>

definition sp :: rx where
  "sp = Plus (Chr is_space)"

definition sp0 :: rx where
  "sp0 = Star True (Chr is_space)"

definition plural :: "string \<Rightarrow> rx" where
  "plural w = Seq (Lit True w) (Opt (Lit True ''s''))"

definition injectionPatterns :: "rx list" where
  "injectionPatterns =
    [seqs [Lit True ''ignore'', sp, Opt (seqs [Lit True ''all'', sp]),
           alts [Lit True ''previous'', Lit True ''prior'', Lit True ''above'', Lit True ''your''], sp,
           alts [plural ''instruction'', plural ''prompt'', plural ''rule'', Lit True ''context'']],
     seqs [Lit True ''disregard'', sp, Opt (seqs [Lit True ''all'', sp]),
           alts [Lit True ''previous'', Lit True ''prior'', Lit True ''above'', Lit True ''your'',
                 Lit True ''everything'']],
     seqs [Lit True ''you'', sp, Lit True ''are'', sp, Lit True ''now'', sp,
           alts [Lit True ''a'', Lit True ''an'', Lit True ''not''], Wb],
     seqs [Lit True ''new'', sp, Opt (seqs [Lit True ''system'', sp]),
           alts [plural ''instruction'', Lit True ''role'', Lit True ''personality'',
                 Lit True ''behavior''], sp0, Lit True '':''],
     seqs [Lit True ''system'', sp, Lit True ''prompt''],
     seqs [Lit True ''reveal'', sp, Opt (seqs [Lit True ''your'', sp]),
           alts [Lit True ''prompt'', plural ''rule'', Lit True ''internal'']],
     seqs [Lit True ''show'', sp, Opt (seqs [Lit True ''me'', sp]), Opt (seqs [Lit True ''your'', sp]),
           alts [Lit True ''prompt'', plural ''rule'',
                 seqs [Lit True ''system'', sp, Lit True ''prompt'']]],
     seqs [Lit True ''what'', sp, alts [Lit True ''are'', Lit True ''is''], sp, Lit True ''your'', sp,
           Opt (seqs [Lit True ''internal'', sp]),
           alts [plural ''instruction'', plural ''prompt'', plural ''rule'',
                 Lit True ''configuration'']],
     seqs [Lit True ''---'', sp0, alts [Lit True ''end'', Lit True ''start''], sp0,
           Opt (seqs [Lit True ''of'', sp0]), alts [Lit True ''system'', Lit True ''prompt'']],
     seqs [Lit True ''<|im_'', alts [Lit True ''start'', Lit True ''end''], Lit True ''|>''],
     Lit True ''[SYSTEM]'',
     Lit True ''[/INST]'',
     Lit True ''[ASSISTANT]'',
     seqs [Lit True ''forget'', sp,
           alts [Lit True ''everything'', Lit True ''all'',
                 seqs [Lit True ''your'', sp,
                       alts [plural ''instruction'', Lit True ''role'', Lit True ''purpose'']]]],
     seqs [Lit True ''pretend'', sp,
           alts [seqs [Lit True ''to'', sp, Lit True ''be''],
                 seqs [Lit True ''you'', sp, Lit True ''are''],
                 seqs [Lit True ''that'', sp, Lit True ''you'']]],
     Lit True ''roleplay'',
     seqs [Lit True ''override'', sp, Opt (seqs [Lit True ''your'', sp]),
           alts [plural ''instruction'', plural ''rule'', Lit True ''programming'']]]"

text \<open>\<^verbatim>\<open>injectionPatterns.find(pattern => pattern.test(message))\<close> is not \<^verbatim>\<open>undefined\<close>.\<close>

definition detectedPattern :: "string \<Rightarrow> bool" where
  "detectedPattern message = list_ex (\<lambda>pattern. test pattern message) injectionPatterns"

subsection \<open>Sessions\<close>

record ConversationMessage =
  role :: string
  content :: string

text \<open>
  A row of the table \<^verbatim>\<open>sessions\<close>, whose primary key is \<^verbatim>\<open>session_id\<close>. The columns
  \<^verbatim>\<open>pin_allocations\<close> and \<^verbatim>\<open>conversation_history\<close> hold JSON text; the model holds the
  values that text stands for. The table is the list of its rows.
\<close>

record SessionRow =
  session_id :: string
  created_at :: int
  last_activity :: int
  pin_allocations :: PinAllocation
  metadata :: "string option"
  conversation_history :: "ConversationMessage list"

type_synonym DB = "SessionRow list"

text \<open>
  \<^verbatim>\<open>getOrCreateSession(db, sessionId, userAgent)\<close>, with the values of \<^verbatim>\<open>Date.now()\<close> and
  \<^verbatim>\<open>generateSessionId()\<close> as arguments. The \<^verbatim>\<open>INSERT\<close> of a key the table already holds
  fails: \<open>None\<close>.
\<close>

definition getOrCreateSession ::
  "int \<Rightarrow> string \<Rightarrow> DB \<Rightarrow> string option \<Rightarrow> string option \<Rightarrow> (SessionRow \<times> DB) option" where
  "getOrCreateSession now newSessionId db sessionId userAgent =
     (case (if truthy sessionId then find (\<lambda>r. Some (session_id r) = sessionId) db else None) of
        Some existing \<Rightarrow>
          Some (existing\<lparr>last_activity := now\<rparr>,
                map (\<lambda>r. if Some (session_id r) = sessionId then r\<lparr>last_activity := now\<rparr> else r) db)
      | None \<Rightarrow>
          if list_ex (\<lambda>r. session_id r = newSessionId) db then None
          else (let row = \<lparr>session_id = newSessionId, created_at = now, last_activity = now,
                           pin_allocations = [], metadata = userAgent,
                           conversation_history = []\<rparr>
                in Some (row, db @ [row])))"

subsection \<open>The session's allocations in the prompt\<close>

text \<open>
  \<^verbatim>\<open>deviceGroups\<close> is a plain object (\<^verbatim>\<open>{}\<close>) whose keys are device names, so two things
  of JavaScript objects show that the association list alone does not have. First, a key
  the object does not own is looked up in \<^verbatim>\<open>Object.prototype\<close>: for the names below,
  \<^verbatim>\<open>deviceGroups[name]\<close> is a function (or, for \<^verbatim>\<open>__proto__\<close>, the prototype itself), which is
  truthy and has no \<^verbatim>\<open>push\<close>. Second, \<^verbatim>\<open>Object.entries\<close> walks the keys that are array
  indices (\<^verbatim>\<open>"0"\<close>, \<^verbatim>\<open>"555"\<close>, \<^verbatim>\<open>"1602"\<close>: canonical decimal numerals up to
  \<^verbatim>\<open>2^32 - 2\<close>) first, in ascending numeric order, and the other keys after them in the
  order of their creation.
\<close>

definition objectPrototypeKeys :: "string list" where
  "objectPrototypeKeys =
     [''constructor'', ''__defineGetter__'', ''__defineSetter__'', ''hasOwnProperty'',
      ''__lookupGetter__'', ''__lookupSetter__'', ''isPrototypeOf'', ''propertyIsEnumerable'',
      ''toString'', ''valueOf'', ''__proto__'', ''toLocaleString'']"

definition digitValue :: "char \<Rightarrow> int" where
  "digitValue c = (case map_of (zip ''0123456789'' [0, 1, 2, 3, 4, 5, 6, 7, 8, 9]) c of
                     Some n \<Rightarrow> n | None \<Rightarrow> 0)"

definition indexValue :: "string \<Rightarrow> int" where
  "indexValue k = foldl (\<lambda>n c. 10 * n + digitValue c) 0 k"

fun isArrayIndex :: "string \<Rightarrow> bool" where
  "isArrayIndex [] = False"
| "isArrayIndex (c # cs) =
     (list_all is_digit (c # cs) \<and> (c \<noteq> CHR ''0'' \<or> cs = []) \<and>
      indexValue (c # cs) \<le> 4294967294)"

text \<open>\<^verbatim>\<open>Object.entries(obj)\<close> of an object whose properties were created in the order of \<open>kvs\<close>.\<close>

definition objectEntries :: "(string \<times> 'a) list \<Rightarrow> (string \<times> 'a) list" where
  "objectEntries kvs =
     sort_key (\<lambda>(k, v). indexValue k) (filter (\<lambda>(k, v). isArrayIndex k) kvs) @
     filter (\<lambda>(k, v). \<not> isArrayIndex k) kvs"

text \<open>
  \<^verbatim>\<open>if (info.device) { if (!deviceGroups[info.device]) deviceGroups[info.device] = [];
    deviceGroups[info.device].push(`${pin} (${info.function})`); }\<close>
  \<open>None\<close>: the \<^verbatim>\<open>push\<close> throws a \<^verbatim>\<open>TypeError\<close>, which happens when the device is named like
  an inherited property.
\<close>

definition addToGroup ::
  "string \<times> allocation \<Rightarrow> (string \<times> string list) list \<Rightarrow> (string \<times> string list) list option"
  where
  "addToGroup e deviceGroups =
     (case e of (pin, info) \<Rightarrow>
        (case device info of
           None \<Rightarrow> Some deviceGroups
         | Some d \<Rightarrow>
             if d = [] then Some deviceGroups
             else (case map_of deviceGroups d of
                     Some pins \<Rightarrow>
                       Some (AList.update d (pins @ [pin @ '' ('' @ func info @ '')'']) deviceGroups)
                   | None \<Rightarrow>
                       if d \<in> set objectPrototypeKeys then None
                       else Some (AList.update d [pin @ '' ('' @ func info @ '')'']
                                    deviceGroups))))"

text \<open>
  \<^verbatim>\<open>for (const [pin, info] of Object.entries(currentAllocations)) { ... }\<close>, which ends at
  the first \<^verbatim>\<open>TypeError\<close>.
\<close>

fun groupLoop ::
  "PinAllocation \<Rightarrow> (string \<times> string list) list \<Rightarrow> (string \<times> string list) list option" where
  "groupLoop [] deviceGroups = Some deviceGroups"
| "groupLoop (e # es) deviceGroups =
     (case addToGroup e deviceGroups of
        None \<Rightarrow> None
      | Some grps \<Rightarrow> groupLoop es grps)"

definition deviceGroups :: "PinAllocation \<Rightarrow> (string \<times> string list) list option" where
  "deviceGroups currentAllocations = groupLoop currentAllocations []"

definition importantRules :: string where
  "importantRules =
     [CHR 0x0A] @ ''IMPORTANT RULES:'' @ [CHR 0x0A] @
     ''1. DO NOT reuse these pins for NEW devices'' @ [CHR 0x0A] @
     ''2. If a device appears incomplete (e.g., I2C with only SCL or only SDA), ALERT the user and offer to complete or reassign it'' @ [CHR 0x0A] @
     ''3. If the user asks to MOVE or CHANGE a pin assignment, you CAN reassign by suggesting new pins'' @ [CHR 0x0A] @
     ''4. When reassigning, output the NEW pin allocations (the old ones will be automatically removed when you suggest new ones for the same device)'' @ [CHR 0x0A] @
     ''5. Example incomplete: '' @ [CHR 0x22] @
     ''MPU6050 only has SCL (PB6) allocated. Did you want to complete the I2C connection with SDA, or remove this allocation?''
     @ [CHR 0x22] @ [CHR 0x0A]"

text \<open>
  The lines of the groups, in the order \<^verbatim>\<open>Object.entries(deviceGroups)\<close> walks them, and
  the lines of the pins without a device.
\<close>

definition groupLines :: "(string \<times> string list) list \<Rightarrow> string" where
  "groupLines grps =
     concat (map (\<lambda>(dev, pins). [CHR 0x0A] @ dev @ '':'' @ [CHR 0x0A] @
                    concat (map (\<lambda>pinInfo. ''  - '' @ pinInfo @ [CHR 0x0A]) pins))
               (objectEntries grps))"

definition ungroupedLines :: "PinAllocation \<Rightarrow> string" where
  "ungroupedLines currentAllocations =
     (let ungroupedPins = filter (\<lambda>(pin, info). \<not> truthy (device info)) currentAllocations
      in if length ungroupedPins > 0
         then [CHR 0x0A] @ ''Other pins:'' @ [CHR 0x0A] @
              concat (map (\<lambda>(pin, info). ''  - '' @ pin @ '': '' @ func info @ [CHR 0x0A])
                        ungroupedPins)
         else [])"

text \<open>
  What \<^verbatim>\<open>if (Object.keys(currentAllocations).length > 0) { ... }\<close> appends to the system
  prompt; \<open>None\<close> when building the groups throws. This is all the endpoint does about
  incomplete devices: it lists the stored pins by device and adds the fixed rules, among
  them the request to the model to alert the user.
\<close>

definition sessionContext :: "PinAllocation \<Rightarrow> string option" where
  "sessionContext currentAllocations =
     (if length currentAllocations > 0
      then (case deviceGroups currentAllocations of
              None \<Rightarrow> None
            | Some grps \<Rightarrow>
                Some ([CHR 0x0A] @ ''CURRENT PIN ALLOCATIONS IN THIS SESSION:'' @ [CHR 0x0A] @
                      groupLines grps @
                      ungroupedLines currentAllocations @
                      importantRules))
      else Some [])"

subsection \<open>The reply\<close>

text \<open>
  The fields of what \<^verbatim>\<open>AI.run\<close> returns that the endpoint reads. What the model answers
  is not computed here: it is an input of the turn.
\<close>

record aiResult =
  ai_response :: "string option"
  ai_content :: "string option"
  ai_message_content :: "string option"
  ai_tool_calls :: "tool_call option list"

text \<open>\<^verbatim>\<open>a || b\<close> on optional strings.\<close>

definition or_else :: "string option \<Rightarrow> string option \<Rightarrow> string option" where
  "or_else a b = (if truthy a then a else b)"

definition toolsText :: string where
  "toolsText = ''I'' @ [CHR 0x27] @
     ''ve allocated the pins for your device. Check the pin allocation sidebar for details.''"

definition responseOf :: "aiResult \<Rightarrow> aiResponse" where
  "responseOf r =
     (let responseText =
            (case or_else (or_else (ai_response r) (ai_content r)) (ai_message_content r) of
               Some t \<Rightarrow> t | None \<Rightarrow> []);
          responseText = (if responseText = [] \<and> length (ai_tool_calls r) > 0
                          then toolsText else responseText)
      in \<lparr>response = responseText, tool_calls = ai_tool_calls r\<rparr>)"

text \<open>
  \<^verbatim>\<open>s.replace(r, '')\<close> for a pattern with the flag \<^verbatim>\<open>g\<close>; \<open>skip\<close> counts the characters
  still inside the last match.
\<close>

fun removeAll :: "rx \<Rightarrow> char option \<Rightarrow> string \<Rightarrow> nat \<Rightarrow> nat \<Rightarrow> string" where
  "removeAll r p [] n skip = []"
| "removeAll r p (c # cs) n skip =
     (if skip = 0
      then (case ms r (St p (c # cs) n []) Some of
              Some m \<Rightarrow>
                if n - st_left m = 0 then c # removeAll r (Some c) cs (n - 1) 0
                else removeAll r (Some c) cs (n - 1) (n - st_left m - 1)
            | None \<Rightarrow> c # removeAll r (Some c) cs (n - 1) 0)
      else removeAll r (Some c) cs (n - 1) (skip - 1))"

text \<open>\<^verbatim>\<open>/---PIN_ALLOCATIONS---[\s\S]*?---END_ALLOCATIONS---/g\<close>\<close>

definition blockRx :: rx where
  "blockRx = seqs [Lit False ''---PIN_ALLOCATIONS---'', Star False (Chr (\<lambda>c. True)),
                   Lit False ''---END_ALLOCATIONS---'']"

text \<open>
  \<^verbatim>\<open>/system prompt/i\<close>, \<^verbatim>\<open>/my instructions/i\<close>,
  \<^verbatim>\<open>/i (was|am) (instructed|told|programmed) to/i\<close>, \<^verbatim>\<open>/critical security instructions/i\<close>,
  \<^verbatim>\<open>/highest priority/i\<close>, \<^verbatim>\<open>/my (internal )?rules/i\<close>
\<close>

definition leakagePatterns :: "rx list" where
  "leakagePatterns =
     [Lit True ''system prompt'',
      Lit True ''my instructions'',
      seqs [Lit True ''i '', alts [Lit True ''was'', Lit True ''am''], Lit True '' '',
            alts [Lit True ''instructed'', Lit True ''told'', Lit True ''programmed''],
            Lit True '' to''],
      Lit True ''critical security instructions'',
      Lit True ''highest priority'',
      seqs [Lit True ''my '', Opt (Lit True ''internal ''), Lit True ''rules'']]"

definition designedText :: string where
  "designedText = ''I'' @ [CHR 0x27] @
     ''m specifically designed to help with the STM32F103C8T6 microcontroller. ''"

definition leakageText :: string where
  "leakageText = designedText @
     ''I can answer questions about its pinout, peripherals, and how to connect devices to it. What would you like to know?''"

definition offTopicText :: string where
  "offTopicText = designedText @
     ''Please ask me questions about the chip, its pinout, or how to connect devices to it.''"

definition injectionText :: string where
  "injectionText = ''I detected an unusual pattern in your message. '' @ designedText @
     ''Please ask a genuine question about the chip, its pinout, or how to connect devices to it.''"

text \<open>The text shown to the user: the block removed, then the two output filters.\<close>

definition cleanResponse :: "string \<Rightarrow> string" where
  "cleanResponse text =
     (let clean = trim (removeAll blockRx None text (length text) 0);
          hasLeakage = list_ex (\<lambda>pattern. test pattern clean) leakagePatterns;
          clean = (if hasLeakage then leakageText else clean)
      in if length clean > 0 \<and> \<not> str_includes (toLowerCase clean) ''stm32'' \<and>
            \<not> str_includes (toLowerCase clean) ''pin'' \<and>
            \<not> str_includes (toLowerCase clean) ''designed to help'' \<and> length clean > 100
         then offTopicText else clean)"

subsection \<open>The handler\<close>

text \<open>
  The request body \<^verbatim>\<open>{ message, sessionId }\<close> and the header \<^verbatim>\<open>User-Agent\<close>. The
  message is \<open>None\<close> when it is not a string. \<open>env\<close> holds what the handler takes from
  outside: the clock at the start and at the final \<^verbatim>\<open>UPDATE\<close>, the fresh session id, and
  the answer of the model.
\<close>

record request =
  message :: "string option"
  sessionId :: "string option"
  userAgent :: "string option"

record env =
  now :: int
  later :: int
  newSessionId :: string
  answer :: aiResult

text \<open>
  The JSON bodies the handler answers with: \<^verbatim>\<open>c.json({ error }, 400)\<close>, which has no other
  field, and \<^verbatim>\<open>c.json({ response, sessionId, allocations, ... })\<close> (the field
  \<^verbatim>\<open>sources\<close>, the rows found by the keyword search, is left out).
\<close>

datatype reply =
    ErrorBody string nat
  | ChatBody string "string option" PinAllocation


text \<open>
  The checks before the session is touched; \<open>Some\<close> body when the message is turned away.
\<close>

definition rejection :: "request \<Rightarrow> reply option" where
  "rejection req =
     (case message req of
        None \<Rightarrow> Some (ErrorBody ''Invalid message format'' 400)
      | Some m \<Rightarrow>
          if m = [] then Some (ErrorBody ''Invalid message format'' 400)
          else if length m > 2000
          then Some (ErrorBody ''Message too long. Please keep messages under 2000 characters.'' 400)
          else if length (trim m) = 0 then Some (ErrorBody ''Message cannot be empty'' 400)
          else if detectedPattern m
          then Some (ChatBody injectionText
                       (if truthy (sessionId req) then sessionId req else None) [])
          else None)"

text \<open>\<^verbatim>\<open>conversationHistory.slice(-100)\<close>\<close>

definition lastN :: "nat \<Rightarrow> 'a list \<Rightarrow> 'a list" where
  "lastN n xs = drop (length xs - n) xs"

text \<open>
  \<^verbatim>\<open>app.post('/api/chat', ...)\<close>: the body of the answer (\<open>None\<close>: the handler throws) and
  the table afterwards. The system prompt is built after the session is fetched and before
  the model is asked; of the prompt only the part that can throw, the session's
  allocations, is in the model.
\<close>

definition chat :: "env \<Rightarrow> request \<Rightarrow> DB \<Rightarrow> reply option \<times> DB" where
  "chat e req db =
     (case rejection req of
        Some body \<Rightarrow> (Some body, db)
      | None \<Rightarrow>
          (case getOrCreateSession (now e) (newSessionId e) db
                  (if truthy (sessionId req) then sessionId req else None) (userAgent req) of
             None \<Rightarrow> (None, db)
           | Some (session, db1) \<Rightarrow>
               (let msg = (case message req of Some m \<Rightarrow> m | None \<Rightarrow> []);
                    currentAllocations = pin_allocations session;
                    conversationHistory = conversation_history session;
                    resp = responseOf (answer e)
                in case sessionContext currentAllocations of
                     None \<Rightarrow> (None, db1)
                   | Some sessionPart \<Rightarrow>
                 case extractPinAllocations resp msg of
                     None \<Rightarrow> (None, db1)
                   | Some newAllocations \<Rightarrow>
                       (let updated = updatedAllocations currentAllocations newAllocations;
                            conversationHistory = conversationHistory @
                              [\<lparr>role = ''user'', content = msg\<rparr>,
                               \<lparr>role = ''assistant'', content = response resp\<rparr>];
                            trimmedHistory = lastN 100 conversationHistory;
                            db2 = map (\<lambda>r. if session_id r = session_id session
                                            then r\<lparr>pin_allocations := updated,
                                                   conversation_history := trimmedHistory,
                                                   last_activity := later e\<rparr>
                                            else r) db1
                        in (Some (ChatBody (cleanResponse (response resp))
                                    (Some (session_id session)) updated), db2)))))"

subsection \<open>Auxiliary notions for the statements about the merge\<close>

text \<open>
  What the last loop leaves at a pin for which \<open>v\<close> is a candidate, when the pin held \<open>ex\<close>
  before: the candidate, unless the stored entry has the same device and the same function.
\<close>

definition merged :: "allocation option \<Rightarrow> allocation \<Rightarrow> allocation" where
  "merged ex v = (case ex of None \<Rightarrow> v
     | Some e \<Rightarrow> if device e \<noteq> device v \<or> func e \<noteq> func v then v else e)"

text \<open>The condition under which the first loop deletes the stored entries of device \<open>d\<close>.\<close>

definition reassigned :: "PinAllocation \<Rightarrow> PinAllocation \<Rightarrow> string option \<Rightarrow> bool" where
  "reassigned M C d =
     (pinsOf M d \<noteq> [] \<and> pinsOf C d \<noteq> [] \<and> pinsChanged (pinsOf M d) (pinsOf C d))"

text \<open>The entry of pin \<open>p\<close> after the first loop.\<close>

definition kept :: "PinAllocation \<Rightarrow> PinAllocation \<Rightarrow> string \<Rightarrow> allocation option" where
  "kept M C p = (case map_of M p of None \<Rightarrow> None
      | Some e \<Rightarrow> if device e \<in> set (newDevices C) \<and> reassigned M C (device e)
                  then None else Some e)"

text \<open>The allocations of the examples.\<close>

abbreviation mk :: "string \<Rightarrow> string \<Rightarrow> string option \<Rightarrow> allocation" where
  "mk f d n \<equiv> \<lparr>func = f, device = Some d, notes_txt = n\<rparr>"

subsection \<open>Auxiliary notions for the statements about the extraction and the prompt\<close>





section \<open>Properties of the merge\<close>

lemma set_new_Set_aux: "set (foldl Set_add s xs) = set s \<union> set xs"
  by (induction xs arbitrary: s) (auto simp: Set_add_def)

lemma set_new_Set: "set (new_Set xs) = set xs"
  by (simp add: new_Set_def set_new_Set_aux)

lemma set_newDevices: "set (newDevices C) = {d. truthy d \<and> d \<in> (device \<circ> snd) ` set C}"
  by (auto simp: newDevices_def set_new_Set image_iff split: prod.splits) force

lemma pinsChanged_iff: "pinsChanged xs ys \<longleftrightarrow> set xs \<noteq> set ys"
  by (auto simp: pinsChanged_def list_ex_iff)

lemma set_pinsOf: "set (pinsOf xs d) = {p. \<exists>e. (p, e) \<in> set xs \<and> device e = d}"
  by (auto simp: pinsOf_def image_iff)

lemma set_pinsOf_distinct:
  "distinct (map fst xs) \<Longrightarrow> set (pinsOf xs d) = {p. \<exists>e. map_of xs p = Some e \<and> device e = d}"
  by (auto simp: set_pinsOf dest: map_of_SomeD)

lemma mem_pinsOf_Some:
  assumes "distinct (map fst u)" "map_of u p = Some a"
  shows "p \<in> set (pinsOf u d) \<longleftrightarrow> device a = d"
  using assms by (simp add: set_pinsOf_distinct del: map_of_eq_Some_iff)

lemma mem_pinsOf_None:
  assumes "map_of u p = None"
  shows "p \<notin> set (pinsOf u d)"
  using assms by (auto simp: set_pinsOf map_of_eq_None_iff image_iff)

lemma map_of_addAllocation:
  "map_of (addAllocation (k, v) u) p = (if p = k then Some (merged (map_of u k) v) else map_of u p)"
  by (auto simp: addAllocation_def merged_def update_conv' split: option.splits)

lemma distinct_addAllocation:
  "distinct (map fst u) \<Longrightarrow> distinct (map fst (addAllocation e u))"
  by (auto simp: addAllocation_def distinct_update split: option.splits prod.splits)

lemma distinct_fold_addAllocation:
  "distinct (map fst u) \<Longrightarrow> distinct (map fst (fold addAllocation C u))"
  by (induction C arbitrary: u) (auto simp: distinct_addAllocation)

text \<open>The last loop, pin by pin: each candidate is merged into the entry found at its pin.\<close>

lemma map_of_fold_addAllocation:
  "distinct (map fst C) \<Longrightarrow>
   map_of (fold addAllocation C u) p =
     (case map_of C p of None \<Rightarrow> map_of u p | Some v \<Rightarrow> Some (merged (map_of u p) v))"
proof (induction C arbitrary: u)
  case Nil
  then show ?case by simp
next
  case (Cons a C)
  obtain k v where a: "a = (k, v)" by (cases a)
  from Cons.prems have d: "distinct (map fst C)" and k: "k \<notin> fst ` set C" by (auto simp: a)
  from k have none: "map_of C k = None" by (simp add: map_of_eq_None_iff)
  show ?case
    using Cons.IH [OF d, of "addAllocation (k, v) u"] none
    by (auto simp: a map_of_addAllocation split: option.splits)
qed

lemma map_of_delete_fold:
  "map_of (fold (\<lambda>(pin, info) u. if device info = dev then AList.delete pin u else u) xs u) p =
     (if p \<in> set (pinsOf xs dev) then None else map_of u p)"
  by (induction xs arbitrary: u) (auto simp: pinsOf_def delete_conv')

lemma distinct_delete_fold:
  "distinct (map fst u) \<Longrightarrow>
   distinct (map fst (fold (\<lambda>(pin, info) u. if device info = dev then AList.delete pin u else u) xs u))"
  by (induction xs arbitrary: u) (auto simp: distinct_delete)

lemma map_of_removeDevice:
  "map_of (removeDevice dev u) p = (if p \<in> set (pinsOf u dev) then None else map_of u p)"
  by (simp add: removeDevice_def map_of_delete_fold)

lemma distinct_removeDevice: "distinct (map fst u) \<Longrightarrow> distinct (map fst (removeDevice dev u))"
  by (simp add: removeDevice_def distinct_delete_fold)

lemma reassignDevice_eq:
  "reassignDevice M C d u = (if reassigned M C d then removeDevice d u else u)"
  by (auto simp: reassignDevice_def reassigned_def Let_def)

lemma distinct_fold_reassign:
  "distinct (map fst u) \<Longrightarrow> distinct (map fst (fold (reassignDevice M C) ds u))"
  by (induction ds arbitrary: u) (auto simp: reassignDevice_eq distinct_removeDevice)

text \<open>The first loop, pin by pin: an entry goes exactly when its device is reassigned.\<close>

lemma map_of_fold_reassign:
  "distinct (map fst u) \<Longrightarrow>
   map_of (fold (reassignDevice M C) ds u) p =
     (case map_of u p of None \<Rightarrow> None
      | Some e \<Rightarrow> if device e \<in> set ds \<and> reassigned M C (device e) then None else Some e)"
proof (induction ds arbitrary: u)
  case Nil
  then show ?case by (simp split: option.splits)
next
  case (Cons d ds)
  let ?u = "reassignDevice M C d u"
  have du: "distinct (map fst ?u)"
    using Cons.prems by (simp add: reassignDevice_eq distinct_removeDevice)
  have step: "map_of ?u p = (case map_of u p of None \<Rightarrow> None
      | Some e \<Rightarrow> if device e = d \<and> reassigned M C d then None else Some e)"
    using Cons.prems
    by (cases "map_of u p")
       (simp_all add: reassignDevice_eq map_of_removeDevice mem_pinsOf_Some mem_pinsOf_None
          del: map_of_eq_Some_iff)
  show ?case
    using Cons.IH [OF du] step by (auto split: option.splits)
qed

lemma map_of_updatedAllocations:
  assumes "distinct (map fst M)" "distinct (map fst C)"
  shows "map_of (updatedAllocations M C) p =
     (case map_of C p of None \<Rightarrow> kept M C p | Some v \<Rightarrow> Some (merged (kept M C p) v))"
  using assms
  by (cases "map_of C p")
     (simp_all add: updatedAllocations_def Let_def map_of_fold_addAllocation
        map_of_fold_reassign kept_def)

lemma distinct_updatedAllocations:
  "distinct (map fst M) \<Longrightarrow> distinct (map fst (updatedAllocations M C))"
  by (simp add: updatedAllocations_def Let_def distinct_fold_addAllocation distinct_fold_reassign)

lemma fold_fix: "(\<And>x. x \<in> set xs \<Longrightarrow> f x u = u) \<Longrightarrow> fold f xs u = u"
  by (induction xs) auto

text \<open>
  A turn changes nothing when no candidate device is reassigned and every candidate finds
  its pin already held with the same device and function.
\<close>

lemma no_change:
  assumes same: "\<And>p v. (p, v) \<in> set C \<Longrightarrow>
      \<exists>e. map_of M p = Some e \<and> device e = device v \<and> func e = func v"
    and pins: "\<And>d. d \<in> set (newDevices C) \<Longrightarrow> \<not> reassigned M C d"
  shows "updatedAllocations M C = M"
proof -
  have 1: "fold (reassignDevice M C) (newDevices C) M = M"
    by (rule fold_fix) (simp add: reassignDevice_eq pins)
  have 2: "fold addAllocation C M = M"
  proof (rule fold_fix)
    fix x assume "x \<in> set C"
    then show "addAllocation x M = M"
      using same [of "fst x" "snd x"] by (auto simp: addAllocation_def split: prod.splits)
  qed
  show ?thesis by (simp add: updatedAllocations_def Let_def 1 2)
qed

lemma merged_same: "device (merged ex v) = device v \<and> func (merged ex v) = func v"
  by (auto simp: merged_def split: option.splits)

lemma pinsOf_nonempty:
  assumes "d \<in> set (newDevices C)"
  shows "pinsOf C d \<noteq> []"
proof -
  from assms obtain q w where "(q, w) \<in> set C" "device w = d" by (auto simp: set_newDevices)
  then have "q \<in> set (pinsOf C d)" by (auto simp: set_pinsOf)
  then show ?thesis by auto
qed

text \<open>After a turn, each candidate device holds exactly its candidate pins.\<close>

lemma pinsOf_updatedAllocations:
  assumes dM: "distinct (map fst M)" and dC: "distinct (map fst C)"
    and d: "d \<in> set (newDevices C)"
  shows "set (pinsOf (updatedAllocations M C) d) = set (pinsOf C d)"
proof (intro set_eqI iffI)
  let ?M' = "updatedAllocations M C"
  have dM': "distinct (map fst ?M')" by (rule distinct_updatedAllocations [OF dM])
  fix p
  {
    assume "p \<in> set (pinsOf ?M' d)"
    then obtain e where e: "map_of ?M' p = Some e" "device e = d"
      by (auto simp: set_pinsOf_distinct [OF dM'])
    show "p \<in> set (pinsOf C d)"
    proof (cases "map_of C p")
      case (Some v)
      with e have "device v = d"
        using merged_same [of "kept M C p" v] by (auto simp: map_of_updatedAllocations [OF dM dC])
      with Some show ?thesis by (auto simp: set_pinsOf_distinct [OF dC])
    next
      case None
      with e have k: "kept M C p = Some e" by (simp add: map_of_updatedAllocations [OF dM dC])
      then have m: "map_of M p = Some e" and nr: "\<not> reassigned M C d"
        using d e(2) by (auto simp: kept_def split: option.splits if_splits)
      from m e(2) have pM: "p \<in> set (pinsOf M d)" by (auto simp: set_pinsOf_distinct [OF dM])
      from None have pC: "p \<notin> set (pinsOf C d)" by (auto simp: set_pinsOf_distinct [OF dC])
      from pM pC pinsOf_nonempty [OF d] have "reassigned M C d"
        by (auto simp: reassigned_def pinsChanged_iff)
      with nr show ?thesis by simp
    qed
  }
  {
    assume "p \<in> set (pinsOf C d)"
    then obtain v where v: "map_of C p = Some v" "device v = d"
      by (auto simp: set_pinsOf_distinct [OF dC])
    then show "p \<in> set (pinsOf ?M' d)"
      using merged_same [of "kept M C p" v]
      by (auto simp: set_pinsOf_distinct [OF dM'] map_of_updatedAllocations [OF dM dC])
  }
qed


section \<open>The claims about the merge\<close>

lemmas merge_eval = updatedAllocations_def newDevices_def new_Set_def Set_add_def truthy_def
  reassignDevice_def pinsOf_def addAllocation_def removeDevice_def pinsChanged_def

text \<open>
  C1 (as stated, refuted): pin PB6 is held by the LED and the reply proposes PB6 for the
  MPU6050. The claim wants the LED's entry kept and the candidate dropped; the merge writes
  the candidate over the LED's entry.
\<close>

theorem C1_counterexample:
  "map_of (updatedAllocations [(''PB6'', mk ''GPIO'' ''LED'' None)]
                              [(''PB6'', mk ''SCL'' ''MPU6050'' None)]) ''PB6''
     \<noteq> map_of [(''PB6'', mk ''GPIO'' ''LED'' None)] ''PB6''"
  by (simp add: merge_eval)

text \<open>
  C1 (amended): if a candidate's pin is already bound in the stored map to a device different
  from the candidate's device, then after the merge the entry of that pin is the candidate:
  the candidate replaces the stored entry, nothing protects a pin from reuse.
\<close>

theorem C1_candidate_replaces:
  assumes "distinct (map fst M)" and "distinct (map fst C)"
    and "map_of C pin = Some info" and "map_of M pin = Some existing"
    and "device existing \<noteq> device info"
  shows "map_of (updatedAllocations M C) pin = Some info"
proof -
  have "kept M C pin = None \<or> kept M C pin = Some existing"
    using assms(4) by (simp add: kept_def)
  then have "merged (kept M C pin) info = info"
    using assms(5) by (auto simp: merged_def)
  then show ?thesis
    using assms(3) by (simp add: map_of_updatedAllocations [OF assms(1,2)])
qed

theorem C1_candidate_replaces_witness:
  "map_of (updatedAllocations
      [(''PA1'', mk ''GPIO'' ''LED'' None), (''PB7'', mk ''SDA'' ''MPU6050'' None)]
      [(''PA1'', mk ''TX'' ''XBee'' (Some ''3.3V''))]) ''PA1''
   = Some (mk ''TX'' ''XBee'' (Some ''3.3V''))"
  using C1_candidate_replaces
    [of "[(''PA1'', mk ''GPIO'' ''LED'' None), (''PB7'', mk ''SDA'' ''MPU6050'' None)]"
        "[(''PA1'', mk ''TX'' ''XBee'' (Some ''3.3V''))]" "''PA1''"
        "mk ''TX'' ''XBee'' (Some ''3.3V'')" "mk ''GPIO'' ''LED'' None"]
  by simp

lemma reassign_example:
  "updatedAllocations
      [(''PB6'', mk ''SCL'' ''MPU6050'' None), (''PB7'', mk ''SDA'' ''MPU6050'' None)]
      [(''PB8'', mk ''SCL'' ''MPU6050'' None), (''PB9'', mk ''SDA'' ''MPU6050'' None)]
    = [(''PB8'', mk ''SCL'' ''MPU6050'' None), (''PB9'', mk ''SDA'' ''MPU6050'' None)]"
  by (simp add: merge_eval)

lemma reassign_general:
  assumes dM: "distinct (map fst M)" and dC: "distinct (map fst C)"
    and name: "name \<noteq> []"
    and old: "pinsOf M (Some name) \<noteq> []" and new: "pinsOf C (Some name) \<noteq> []"
    and differ: "set (pinsOf M (Some name)) \<noteq> set (pinsOf C (Some name))"
    and p: "p \<in> set (pinsOf M (Some name))"
  shows "map_of (updatedAllocations M C) p = map_of C p"
proof -
  from p obtain e where e: "map_of M p = Some e" "device e = Some name"
    by (auto simp: set_pinsOf_distinct [OF dM])
  from new obtain q where "q \<in> set (pinsOf C (Some name))"
    by (cases "pinsOf C (Some name)") auto
  then obtain w where "(q, w) \<in> set C" "device w = Some name" by (auto simp: set_pinsOf)
  then have "Some name \<in> set (newDevices C)"
    using name by (force simp: set_newDevices truthy_def)
  moreover have "reassigned M C (Some name)"
    using old new differ by (simp add: reassigned_def pinsChanged_iff)
  ultimately have "kept M C p = None"
    using e by (simp add: kept_def)
  then show ?thesis
    by (cases "map_of C p") (simp_all add: map_of_updatedAllocations [OF dM dC] merged_def)
qed

text \<open>
  C3: with PB6 and PB7 held by the MPU6050 and the candidates PB8 and PB9 for the MPU6050,
  the merge removes PB6 and PB7 and inserts PB8 and PB9. In general, when the stored pins of
  a (named) device and its candidate pins differ as sets, every stored pin of that device
  holds after the merge what the candidates say about it: nothing, unless it is itself
  a candidate pin.
\<close>

theorem C3_reassignment:
  "updatedAllocations
      [(''PB6'', mk ''SCL'' ''MPU6050'' None), (''PB7'', mk ''SDA'' ''MPU6050'' None)]
      [(''PB8'', mk ''SCL'' ''MPU6050'' None), (''PB9'', mk ''SDA'' ''MPU6050'' None)]
    = [(''PB8'', mk ''SCL'' ''MPU6050'' None), (''PB9'', mk ''SDA'' ''MPU6050'' None)]
   \<and> (\<forall>M C name p.
        distinct (map fst M) \<and> distinct (map fst C) \<and> name \<noteq> [] \<and>
        pinsOf M (Some name) \<noteq> [] \<and> pinsOf C (Some name) \<noteq> [] \<and>
        set (pinsOf M (Some name)) \<noteq> set (pinsOf C (Some name)) \<and>
        p \<in> set (pinsOf M (Some name))
        \<longrightarrow> map_of (updatedAllocations M C) p = map_of C p)"
proof (intro conjI allI impI)
  fix M C :: PinAllocation and name p :: string
  assume "distinct (map fst M) \<and> distinct (map fst C) \<and> name \<noteq> [] \<and>
        pinsOf M (Some name) \<noteq> [] \<and> pinsOf C (Some name) \<noteq> [] \<and>
        set (pinsOf M (Some name)) \<noteq> set (pinsOf C (Some name)) \<and>
        p \<in> set (pinsOf M (Some name))"
  then show "map_of (updatedAllocations M C) p = map_of C p"
    by (elim conjE) (rule reassign_general)
qed (rule reassign_example)

theorem C3_reassignment_witness:
  "map_of (updatedAllocations
      [(''PB6'', mk ''SCL'' ''MPU6050'' None), (''PB7'', mk ''SDA'' ''MPU6050'' None)]
      [(''PB7'', mk ''SCL'' ''MPU6050'' None), (''PB8'', mk ''SDA'' ''MPU6050'' None)]) ''PB6''
   = None"
proof -
  let ?M = "[(''PB6'', mk ''SCL'' ''MPU6050'' None), (''PB7'', mk ''SDA'' ''MPU6050'' None)]"
  let ?C = "[(''PB7'', mk ''SCL'' ''MPU6050'' None), (''PB8'', mk ''SDA'' ''MPU6050'' None)]"
  have differ: "set (pinsOf ?M (Some ''MPU6050'')) \<noteq> set (pinsOf ?C (Some ''MPU6050''))"
  proof
    assume "set (pinsOf ?M (Some ''MPU6050'')) = set (pinsOf ?C (Some ''MPU6050''))"
    then have "''PB6'' \<in> set (pinsOf ?M (Some ''MPU6050''))
        \<longleftrightarrow> ''PB6'' \<in> set (pinsOf ?C (Some ''MPU6050''))"
      by simp
    then show False by (simp add: pinsOf_def)
  qed
  have "map_of (updatedAllocations ?M ?C) ''PB6'' = map_of ?C ''PB6''"
    by (rule C3_reassignment [THEN conjunct2, rule_format, of ?M ?C "''MPU6050''" "''PB6''"])
       (intro conjI differ; simp add: pinsOf_def)
  then show ?thesis by simp
qed

text \<open>
  C4 (as stated, refuted): with PB6 and PB7 held by the MPU6050 and the candidates PB6 (now
  with notes "x") and PB7, the claim wants the notes of PB6 to become "x". The candidate for
  PB6 has the stored device and function, so the merge skips it: PB6 keeps its entry
  without notes.
\<close>

theorem C4_counterexample:
  "map_of (updatedAllocations
      [(''PB6'', mk ''SCL'' ''MPU6050'' None), (''PB7'', mk ''SDA'' ''MPU6050'' None)]
      [(''PB6'', mk ''SCL'' ''MPU6050'' (Some ''x'')), (''PB7'', mk ''SDA'' ''MPU6050'' None)])
     ''PB6''
   = Some \<lparr>func = ''SCL'', device = Some ''MPU6050'', notes_txt = None\<rparr>"
  by (simp add: merge_eval)

lemma update_example:
  "updatedAllocations
      [(''PB6'', mk ''SCL'' ''MPU6050'' None), (''PB7'', mk ''SDA'' ''MPU6050'' None)]
      [(''PB6'', mk ''SCL'' ''MPU6050'' (Some ''x'')), (''PB7'', mk ''SDA'' ''MPU6050'' None)]
    = [(''PB6'', mk ''SCL'' ''MPU6050'' None), (''PB7'', mk ''SDA'' ''MPU6050'' None)]"
  by (simp add: merge_eval)

lemma update_general:
  assumes dM: "distinct (map fst M)" and dC: "distinct (map fst C)"
    and same: "\<forall>d \<in> set (newDevices C). pinsOf M d = [] \<or> set (pinsOf M d) = set (pinsOf C d)"
  shows "map_of (updatedAllocations M C) p =
     (case map_of C p of None \<Rightarrow> map_of M p | Some v \<Rightarrow> Some (merged (map_of M p) v))"
proof -
  have "kept M C p = map_of M p"
    using same by (auto simp: kept_def reassigned_def pinsChanged_iff split: option.splits)
  then show ?thesis
    by (cases "map_of C p") (simp_all add: map_of_updatedAllocations [OF dM dC])
qed

text \<open>
  C4 (amended): for that map and those candidates the merge removes nothing and leaves the
  entries of PB7 and of PB6 as they are (the notes of PB6 stay absent). In general, when
  every candidate device that has stored pins has the same pin set among the candidates,
  no pin is removed, a pin that is no candidate keeps its entry, and a candidate replaces
  the stored entry of its pin only if the device or the function differs; otherwise the
  stored entry stays, notes included.
\<close>

theorem C4_update_in_place:
  "updatedAllocations
      [(''PB6'', mk ''SCL'' ''MPU6050'' None), (''PB7'', mk ''SDA'' ''MPU6050'' None)]
      [(''PB6'', mk ''SCL'' ''MPU6050'' (Some ''x'')), (''PB7'', mk ''SDA'' ''MPU6050'' None)]
    = [(''PB6'', mk ''SCL'' ''MPU6050'' None), (''PB7'', mk ''SDA'' ''MPU6050'' None)]
   \<and> (\<forall>M C p.
        distinct (map fst M) \<and> distinct (map fst C) \<and>
        (\<forall>d \<in> set (newDevices C). pinsOf M d = [] \<or> set (pinsOf M d) = set (pinsOf C d))
        \<longrightarrow> map_of (updatedAllocations M C) p =
             (case map_of C p of None \<Rightarrow> map_of M p
              | Some v \<Rightarrow> Some (merged (map_of M p) v)))"
proof (intro conjI allI impI)
  fix M C :: PinAllocation and p :: string
  assume "distinct (map fst M) \<and> distinct (map fst C) \<and>
        (\<forall>d \<in> set (newDevices C). pinsOf M d = [] \<or> set (pinsOf M d) = set (pinsOf C d))"
  then show "map_of (updatedAllocations M C) p =
             (case map_of C p of None \<Rightarrow> map_of M p
              | Some v \<Rightarrow> Some (merged (map_of M p) v))"
    by (elim conjE) (rule update_general)
qed (rule update_example)

theorem C4_update_in_place_witness:
  "map_of (updatedAllocations
      [(''PB6'', mk ''SCL'' ''MPU6050'' None), (''PB7'', mk ''SDA'' ''MPU6050'' None)]
      [(''PB6'', mk ''SCL'' ''MPU6050'' (Some ''x'')), (''PB7'', mk ''TX'' ''MPU6050'' None)])
     ''PB7''
   = Some (mk ''TX'' ''MPU6050'' None)"
proof -
  let ?M = "[(''PB6'', mk ''SCL'' ''MPU6050'' None), (''PB7'', mk ''SDA'' ''MPU6050'' None)]"
  let ?C = "[(''PB6'', mk ''SCL'' ''MPU6050'' (Some ''x'')), (''PB7'', mk ''TX'' ''MPU6050'' None)]"
  have "map_of (updatedAllocations ?M ?C) ''PB7'' =
             (case map_of ?C ''PB7'' of None \<Rightarrow> map_of ?M ''PB7''
              | Some v \<Rightarrow> Some (merged (map_of ?M ''PB7'') v))"
    by (rule C4_update_in_place [THEN conjunct2, rule_format, of ?M ?C "''PB7''"])
       (simp add: newDevices_def new_Set_def Set_add_def truthy_def pinsOf_def)
  then show ?thesis by (simp add: merged_def)
qed

text \<open>
  C7: applying the merge a second time with the same candidates to the map the first
  application produced changes nothing. The maps and the candidate sets are JavaScript
  objects, so their keys are pairwise distinct.
\<close>

theorem C7_idempotent:
  assumes dM: "distinct (map fst M)" and dC: "distinct (map fst C)"
  shows "updatedAllocations (updatedAllocations M C) C = updatedAllocations M C"
proof (rule no_change)
  fix p v assume "(p, v) \<in> set C"
  with dC have "map_of C p = Some v" by simp
  then show "\<exists>e. map_of (updatedAllocations M C) p = Some e
      \<and> device e = device v \<and> func e = func v"
    by (simp add: map_of_updatedAllocations [OF dM dC] merged_same)
next
  fix d assume "d \<in> set (newDevices C)"
  then have "set (pinsOf (updatedAllocations M C) d) = set (pinsOf C d)"
    by (rule pinsOf_updatedAllocations [OF dM dC])
  then show "\<not> reassigned (updatedAllocations M C) C d"
    by (simp add: reassigned_def pinsChanged_iff)
qed

theorem C7_idempotent_witness:
  "updatedAllocations
     (updatedAllocations
        [(''PB6'', mk ''SCL'' ''MPU6050'' None), (''PA1'', mk ''GPIO'' ''LED'' None)]
        [(''PB8'', mk ''SCL'' ''MPU6050'' None), (''PA1'', mk ''TX'' ''XBee'' None)])
     [(''PB8'', mk ''SCL'' ''MPU6050'' None), (''PA1'', mk ''TX'' ''XBee'' None)]
   = [(''PA1'', mk ''TX'' ''XBee'' None), (''PB8'', mk ''SCL'' ''MPU6050'' None)]"
proof -
  have "updatedAllocations
        [(''PB6'', mk ''SCL'' ''MPU6050'' None), (''PA1'', mk ''GPIO'' ''LED'' None)]
        [(''PB8'', mk ''SCL'' ''MPU6050'' None), (''PA1'', mk ''TX'' ''XBee'' None)]
      = [(''PA1'', mk ''TX'' ''XBee'' None), (''PB8'', mk ''SCL'' ''MPU6050'' None)]"
    by (simp add: merge_eval)
  then show ?thesis
    using C7_idempotent
      [of "[(''PB6'', mk ''SCL'' ''MPU6050'' None), (''PA1'', mk ''GPIO'' ''LED'' None)]"
          "[(''PB8'', mk ''SCL'' ''MPU6050'' None), (''PA1'', mk ''TX'' ''XBee'' None)]"]
    by simp
qed

section \<open>The matcher on small examples\<close>

text \<open>
  What JavaScript answers on a few small inputs, reproduced by the matcher:
  \<^verbatim>\<open>'a1b22c'.match(/\d+/)[0]\<close> is \<^verbatim>\<open>'1'\<close>; \<^verbatim>\<open>'aXbXc'.match(/a(.*)X/)[1]\<close> is
  \<^verbatim>\<open>'Xb'\<close> and with \<^verbatim>\<open>(.*?)\<close> it is empty; \<^verbatim>\<open>'abc'.match(/(a|ab)c/)[1]\<close> is
  \<^verbatim>\<open>'ab'\<close>; \<^verbatim>\<open>/\bbar\b/\<close> matches in \<^verbatim>\<open>'foo bar'\<close> and not in \<^verbatim>\<open>'foobar'\<close>;
  \<^verbatim>\<open>'a1b22c333'.match(/\d{2,}/g)\<close> is \<^verbatim>\<open>['22', '333']\<close>;
  \<^verbatim>\<open>'a-b-c'.replace(/-/g, '')\<close> is \<^verbatim>\<open>'abc'\<close>.
\<close>

lemma rx_leftmost:
  "match ''a1b22c'' (Plus (Chr is_digit)) = Some (Match ''1'' [])"
  by code_simp

lemma rx_greedy:
  "match ''aXbXc'' (seqs [Lit False ''a'', Grp 1 (Star True (Chr is_dot)), Lit False ''X''])
     = Some (Match ''aXbX'' [(1, ''Xb'')])"
  by code_simp

lemma rx_lazy:
  "match ''aXbXc'' (seqs [Lit False ''a'', Grp 1 (Star False (Chr is_dot)), Lit False ''X''])
     = Some (Match ''aX'' [(1, [])])"
  by code_simp

lemma rx_backtrack:
  "match ''abc'' (seqs [Grp 1 (alts [Lit False ''a'', Lit False ''ab'']), Lit False ''c''])
     = Some (Match ''abc'' [(1, ''ab'')])"
  by code_simp

lemma rx_boundary:
  "test (seqs [Wb, Lit False ''bar'', Wb]) ''foo bar'' \<and>
   \<not> test (seqs [Wb, Lit False ''bar'', Wb]) ''foobar'' \<and>
   test (Lit True ''BAR'') ''a bar'' \<and> \<not> test (Lit False ''BAR'') ''a bar''"
  by code_simp

lemma rx_global:
  "map matched (matchAll ''a1b22c333'' (Two_or_more (Chr is_digit))) = [''22'', ''333''] \<and>
   removeAll (Lit False ''-'') None ''a-b-c'' 5 0 = ''abc''"
  by code_simp

section \<open>The claims about the extraction\<close>











text \<open>The same reply yields a candidate when the utterance asks for a connection.\<close>

lemma prose_other_utterance:
  "extractPinAllocations
     \<lparr>response = ''PB6 and PB7 are 5V tolerant. Connect the LED to PB6.'', tool_calls = []\<rparr>
     ''Wire up my LED'' = Some [(''PB6'', mk ''GPIO'' ''LED'' None)]"
  by code_simp


lemma line_pb6_lower:
  "map fst (parseLine ''PIN: pb6 | FUNCTION: SCL'' []) = [''PB6'']"
  by code_simp

lemma line_pb6:
  "map fst (parseLine ''PIN: PB6 | FUNCTION: SCL'' []) = [''PB6'']"
  by code_simp

lemma line_pb06:
  "map fst (parseLine ''PIN: PB06 | FUNCTION: SCL'' []) = [''PB06'']"
  by code_simp

text \<open>
  The pattern of the pin asks for two letters, not for \<^verbatim>\<open>P\<close> and a port letter: the line
  with the token PZ99 is accepted. (The endpoint that deletes a pin checks
  \<^verbatim>\<open>/^P[A-E]\d{1,2}$/\<close>; the extraction does not.)
\<close>

lemma line_pz99:
  "parseLine ''PIN: PZ99 | FUNCTION: SCL'' []
     = [(''PZ99'', \<lparr>func = ''SCL'', device = None, notes_txt = None\<rparr>)]"
  by code_simp

text \<open>
  C5 (as stated, refuted): the tokens PB06 and PB6 do not normalize to the same pin: the
  line with PB06 is stored under the key PB06, the line with PB6 under PB6.
\<close>

theorem C5_counterexample:
  "map fst (parseLine ''PIN: PB06 | FUNCTION: SCL'' []) = [''PB06''] \<and>
   map fst (parseLine ''PIN: PB6 | FUNCTION: SCL'' []) = [''PB6'']"
  by (intro conjI line_pb06 line_pb6)

text \<open>
  C5 (amended): the tokens pb6 and PB6 normalize to the same pin PB6 (the token is matched
  ignoring case and put in upper case), while PB06 stays PB06, a different key: a leading
  zero is not dropped.
\<close>

theorem C5_pin_normalization:
  "map fst (parseLine ''PIN: pb6 | FUNCTION: SCL'' []) = [''PB6''] \<and>
   map fst (parseLine ''PIN: PB6 | FUNCTION: SCL'' []) = [''PB6''] \<and>
   map fst (parseLine ''PIN: PB06 | FUNCTION: SCL'' []) = [''PB06'']"
  by (intro conjI line_pb6_lower line_pb6 line_pb06)






text \<open>A \<^verbatim>\<open>null\<close> among the tool calls is the one input that makes the extraction throw.\<close>

lemma toolCallsLoop_null: "toolCallsLoop (cs @ None # cs') a = None"
  by (induction cs a rule: toolCallsLoop.induct) auto



section \<open>The two backends\<close>

lemma reassignDevice_v1_eq:
  "reassignDevice_v1 M d u = (if pinsOf M d \<noteq> [] then removeDevice d u else u)"
  by (auto simp: reassignDevice_v1_def Let_def list_ex_iff pinsOf_def filter_empty_conv)

lemma distinct_fold_reassign_v1:
  "distinct (map fst u) \<Longrightarrow> distinct (map fst (fold (reassignDevice_v1 M) ds u))"
  by (induction ds arbitrary: u) (auto simp: reassignDevice_v1_eq distinct_removeDevice)




















section \<open>The session's allocations in the prompt\<close>




















text \<open>
  A device named like an inherited property: \<^verbatim>\<open>deviceGroups["constructor"]\<close> is the
  function \<^verbatim>\<open>Object\<close>, no group is created, and \<^verbatim>\<open>push\<close> is not a function.
\<close>

lemma context_throws:
  "sessionContext [(''PA1'', mk ''GPIO'' ''constructor'' None)] = None"
  by code_simp

text \<open>
  A device whose name is a numeral is listed before the others, although it was stored
  after them; the pins without a device come last.
\<close>

lemma entries_order:
  "map fst (objectEntries [(''MPU6050'', [''a'']), (''1602'', [''b'']), (''LED'', [''c'']),
                           (''555'', [''d'']), (''007'', [''e''])])
   = [''555'', ''1602'', ''MPU6050'', ''LED'', ''007'']"
  by code_simp

lemma groups_order:
  "deviceGroups [(''PB6'', mk ''SCL'' ''MPU6050'' None), (''PA1'', mk ''OUT'' ''555'' None),
                 (''PA0'', \<lparr>func = ''ADC'', device = None, notes_txt = None\<rparr>)]
   = Some [(''MPU6050'', [''PB6 (SCL)'']), (''555'', [''PA1 (OUT)''])]"
  by code_simp

lemma lines_order:
  "groupLines [(''MPU6050'', [''PB6 (SCL)'']), (''555'', [''PA1 (OUT)''])] =
     [CHR 0x0A] @ ''555:'' @ [CHR 0x0A] @ ''  - PA1 (OUT)'' @ [CHR 0x0A] @
     [CHR 0x0A] @ ''MPU6050:'' @ [CHR 0x0A] @ ''  - PB6 (SCL)'' @ [CHR 0x0A]"
  by code_simp

lemma ungrouped_order:
  "ungroupedLines [(''PB6'', mk ''SCL'' ''MPU6050'' None), (''PA1'', mk ''OUT'' ''555'' None),
                   (''PA0'', \<lparr>func = ''ADC'', device = None, notes_txt = None\<rparr>)]
   = [CHR 0x0A] @ ''Other pins:'' @ [CHR 0x0A] @ ''  - PA0: ADC'' @ [CHR 0x0A]"
  by code_simp

lemma context_order:
  "sessionContext [(''PB6'', mk ''SCL'' ''MPU6050'' None), (''PA1'', mk ''OUT'' ''555'' None),
                   (''PA0'', \<lparr>func = ''ADC'', device = None, notes_txt = None\<rparr>)] =
     Some ([CHR 0x0A] @ ''CURRENT PIN ALLOCATIONS IN THIS SESSION:'' @ [CHR 0x0A] @
           [CHR 0x0A] @ ''555:'' @ [CHR 0x0A] @ ''  - PA1 (OUT)'' @ [CHR 0x0A] @
           [CHR 0x0A] @ ''MPU6050:'' @ [CHR 0x0A] @ ''  - PB6 (SCL)'' @ [CHR 0x0A] @
           [CHR 0x0A] @ ''Other pins:'' @ [CHR 0x0A] @ ''  - PA0: ADC'' @ [CHR 0x0A] @
           importantRules)"
  by (simp add: sessionContext_def groups_order lines_order ungrouped_order)




section \<open>The claim about the rejected input\<close>





text \<open>An accepted message does touch the table: the session is updated.\<close>

lemma chat_accepted:
  "snd (chat \<lparr>now = 1000, later = 1001, newSessionId = ''s2'',
         answer = \<lparr>ai_response = Some ''ok'', ai_content = None, ai_message_content = None,
                   ai_tool_calls = []\<rparr>\<rparr>
     \<lparr>message = Some ''hello'', sessionId = Some ''s1'', userAgent = None\<rparr>
     [\<lparr>session_id = ''s1'', created_at = 1, last_activity = 2,
       pin_allocations = [(''PB6'', mk ''SCL'' ''MPU6050'' None)], metadata = None,
       conversation_history = []\<rparr>])
   = [\<lparr>session_id = ''s1'', created_at = 1, last_activity = 1001,
       pin_allocations = [(''PB6'', mk ''SCL'' ''MPU6050'' None)], metadata = None,
       conversation_history = [\<lparr>role = ''user'', content = ''hello''\<rparr>,
          \<lparr>role = ''assistant'', content = ''ok''\<rparr>]\<rparr>]"
  by code_simp




end
